theory Spec2Isabelle
  imports Complex_Main
begin

section \<open>Data model of \<open>workout-app/app/page.tsx\<close>\<close>

text \<open>
  The TypeScript types of the page become datatypes (string unions) and records (object
  types). A JavaScript \<open>number\<close> is modelled as an exact rational: the arithmetic of the
  program (\<open>*\<close>, \<open>+\<close>, \<open>/\<close>, comparison, \<open>Math.round\<close>) is carried out without the
  rounding error of IEEE doubles and without \<open>NaN\<close> or infinities. An optional field
  (\<open>f?: T\<close>) is an \<open>option\<close>, \<open>None\<close> standing for \<open>undefined\<close>. Field names that
  occur in several object types, or that clash with a constant of HOL, carry the name of
  their type as a prefix.
\<close>

datatype LiftKey = Bench | Squat | Deadlift | Ohp | Row

datatype DayType = Push | Pull | Legs | Full

datatype Goal = Hypertrophy | Strength | Health

text \<open>The type \<open>LiftKey | 'accessory'\<close> of the field \<open>primary\<close>.\<close>

datatype Primary = Lift LiftKey | Accessory

record Setup =
  setup_name :: "string option"
  gender :: string
  heightIn :: rat
  weightLb :: rat
  goal :: Goal
  fiveRM :: "LiftKey \<Rightarrow> rat"

record Exercise =
  ex_id :: string
  ex_name :: string
  primary :: Primary
  ex_muscleGroups :: "string list"
  sets :: rat
  reps :: string
  targetWeightLb :: "rat option"
  ex_notes :: "string option"

record ExerciseLog =
  exerciseId :: string
  actualWeightLb :: "rat option"
  actualReps :: "string option"
  rpe :: "rat option"
  log_notes :: "string option"

record Session =
  sess_id :: string
  dateISO :: string
  dayType :: DayType
  sess_muscleGroups :: "string list"
  energy :: rat
  difficulty :: rat
  sleepHours :: "rat option"
  workout :: "Exercise list"
  logs :: "ExerciseLog list"

section \<open>Day-type selector\<close>

text \<open>
  \<open>Array.prototype.indexOf\<close>: the position of the first occurrence, \<open>-1\<close> when there is
  none.
\<close>

fun indexOf :: "'a list \<Rightarrow> 'a \<Rightarrow> int" where
  "indexOf [] x = - 1"
| "indexOf (y # ys) x =
     (if y = x then 0
      else (let i = indexOf ys x in if i < 0 then - 1 else i + 1))"

text \<open>The local constant \<open>order\<close> of \<open>pickNextDayType\<close>.\<close>

definition dayOrder :: "DayType list" where
  "dayOrder = [Push, Pull, Legs, Full]"

text \<open>
  \<open>pickNextDayType\<close>: the \<open>for\<close> loop returns the first element of the order that
  \<open>recent\<close> does not include (\<open>find\<close>); after the loop, \<open>history[0]?.dayType\<close> is
  \<open>undefined\<close> exactly for the empty history (every day type is a non-empty string, hence
  truthy), and the index \<open>(idx + 1) % order.length\<close> is computed on a non-negative
  number, where JavaScript's remainder is \<open>mod\<close>.
\<close>

definition pickNextDayType :: "Session list \<Rightarrow> DayType" where
  "pickNextDayType history =
     (let recent = map dayType (take 4 history) in
      case find (\<lambda>dt. dt \<notin> set recent) dayOrder of
        Some dt \<Rightarrow> dt
      | None \<Rightarrow>
          (case history of
             [] \<Rightarrow> Full
           | s # _ \<Rightarrow>
               (let idx = indexOf dayOrder (dayType s)
                in dayOrder ! nat ((idx + 1) mod int (length dayOrder)))))"

section \<open>Target-weight calculator\<close>

text \<open>\<open>estimate1RMFrom5RM\<close>, \<open>trainingMax\<close>: the Epley estimate and its 90 percent.\<close>

definition estimate1RMFrom5RM :: "rat \<Rightarrow> rat" where
  "estimate1RMFrom5RM w = w * (1 + 5 / 30)"

definition trainingMax :: "rat \<Rightarrow> rat" where
  "trainingMax oneRM = oneRM * 0.9"

text \<open>
  \<open>Math.round\<close> returns the nearest integer, the larger one at a tie: on exact numbers it
  is \<open>\<lfloor>x + 1/2\<rfloor>\<close>.
\<close>

definition Math_round :: "rat \<Rightarrow> int" where
  "Math_round x = \<lfloor>x + 1 / 2\<rfloor>"

definition roundTo2_5 :: "rat \<Rightarrow> rat" where
  "roundTo2_5 x = of_int (Math_round (x / 2.5)) * 2.5"

definition clamp :: "rat \<Rightarrow> rat \<Rightarrow> rat \<Rightarrow> rat" where
  "clamp n mn mx = max mn (min mx n)"

text \<open>
  Truthiness of an optional number, as in \<open>ex.targetWeightLb && ...\<close>: \<open>undefined\<close> and
  \<open>0\<close> are falsy.
\<close>

fun truthyNumber :: "rat option \<Rightarrow> bool" where
  "truthyNumber None = False"
| "truthyNumber (Some w) = (w \<noteq> 0)"

text \<open>The object \<open>{ session: s, exercise: ex, log }\<close> that the search returns.\<close>

record LiftPerformance =
  perf_session :: Session
  perf_exercise :: Exercise
  perf_log :: "ExerciseLog option"

text \<open>
  \<open>findLastLiftPerformance\<close>: the inner loop over the exercises of one session
  (\<open>findInWorkout\<close>) and the outer loop over the history, each returning at the first
  match.
\<close>

fun findInWorkout :: "Session \<Rightarrow> Exercise list \<Rightarrow> LiftKey \<Rightarrow> LiftPerformance option" where
  "findInWorkout s [] lift = None"
| "findInWorkout s (ex # exs) lift =
     (if primary ex = Lift lift \<and> truthyNumber (targetWeightLb ex)
      then Some \<lparr>perf_session = s, perf_exercise = ex,
                 perf_log = find (\<lambda>l. exerciseId l = ex_id ex) (logs s)\<rparr>
      else findInWorkout s exs lift)"

fun findLastLiftPerformance :: "Session list \<Rightarrow> LiftKey \<Rightarrow> LiftPerformance option" where
  "findLastLiftPerformance [] lift = None"
| "findLastLiftPerformance (s # rest) lift =
     (case findInWorkout s (workout s) lift of
        Some r \<Rightarrow> Some r
      | None \<Rightarrow> findLastLiftPerformance rest lift)"

text \<open>
  \<open>computeTargetWeightLb\<close>, in the order of its body. \<open>liftTrainingMax\<close> is \<open>tMax\<close>
  (\<open>setup.fiveRM[lift] || 0\<close> replaces a falsy 5RM by \<open>0\<close>), \<open>basePct\<close> and
  \<open>dayAdjust\<close> are the constants of the same names, \<open>progressionBump\<close> is the
  \<open>if\<close>/\<open>else if\<close> chain that sets \<open>bump\<close>, \<open>targetBeforeClamp\<close> is the value of
  \<open>target\<close> when the clamp is reached, and \<open>computeTargetWeightLb\<close> clamps and rounds it.
\<close>

definition liftTrainingMax :: "Setup \<Rightarrow> LiftKey \<Rightarrow> rat" where
  "liftTrainingMax stp lift =
     trainingMax (estimate1RMFrom5RM (if fiveRM stp lift \<noteq> 0 then fiveRM stp lift else 0))"

definition basePct :: "Goal \<Rightarrow> rat" where
  "basePct g = (if g = Strength then 0.8 else if g = Health then 0.65 else 0.7)"

definition dayAdjust :: "DayType \<Rightarrow> rat" where
  "dayAdjust dt = (if dt = Full then - 0.05 else 0)"

definition progressionBump :: "rat \<Rightarrow> rat \<Rightarrow> rat" where
  "progressionBump lastDifficulty lastEnergy =
     (if lastDifficulty \<le> 2 \<and> lastEnergy \<ge> 4 then 5
      else if lastDifficulty = 3 then 2.5
      else if lastDifficulty \<ge> 4 \<or> lastEnergy \<le> 2 then - 5
      else 0)"

definition targetBeforeClamp :: "Setup \<Rightarrow> Session list \<Rightarrow> LiftKey \<Rightarrow> DayType \<Rightarrow> rat" where
  "targetBeforeClamp stp history lift dt =
     (let tMax = liftTrainingMax stp lift;
          target = tMax * (basePct (goal stp) + dayAdjust dt)
      in case findLastLiftPerformance history lift of
           None \<Rightarrow> target
         | Some lp \<Rightarrow>
             (case targetWeightLb (perf_exercise lp) of
                None \<Rightarrow> target
              | Some lastW \<Rightarrow>
                  if lastW \<noteq> 0
                  then lastW + progressionBump (difficulty (perf_session lp))
                                               (energy (perf_session lp))
                  else target))"

definition computeTargetWeightLb :: "Setup \<Rightarrow> Session list \<Rightarrow> LiftKey \<Rightarrow> DayType \<Rightarrow> rat" where
  "computeTargetWeightLb stp history lift dt =
     (let tMax = liftTrainingMax stp lift
      in roundTo2_5 (clamp (targetBeforeClamp stp history lift dt) (tMax * 0.55) (tMax * 0.9)))"

section \<open>Workout templates and demo data\<close>

text \<open>
  \<open>uid\<close> draws on \<open>Math.random\<close> and the clock. The identifiers it returns are taken as
  a parameter: \<open>uid k\<close> is the result of the \<open>k\<close>-th call, in the order in which the
  object literals are evaluated. The clock readings (\<open>new Date().toISOString()\<close>) are
  parameters as well.
\<close>

text \<open>
  An exercise literal of the templates: the six fields it writes, no target weight, no
  notes.
\<close>

definition exerciseLit ::
  "string \<Rightarrow> string \<Rightarrow> Primary \<Rightarrow> string list \<Rightarrow> rat \<Rightarrow> string \<Rightarrow> Exercise" where
  "exerciseLit i n p mg s r =
     \<lparr>ex_id = i, ex_name = n, primary = p, ex_muscleGroups = mg, sets = s, reps = r,
      targetWeightLb = None, ex_notes = None\<rparr>"

definition baseWorkoutTemplate :: "(nat \<Rightarrow> string) \<Rightarrow> DayType \<Rightarrow> Exercise list" where
  "baseWorkoutTemplate uid dt =
     (if dt = Push then
        [exerciseLit (uid 0) ''Barbell Bench Press'' (Lift Bench) [''Chest'', ''Triceps'', ''Shoulders''] 4 ''6-10'',
         exerciseLit (uid 1) ''Overhead Press'' (Lift Ohp) [''Shoulders'', ''Triceps''] 3 ''6-10'',
         exerciseLit (uid 2) ''Incline Dumbbell Press'' Accessory [''Chest''] 3 ''8-12'',
         exerciseLit (uid 3) ''Lateral Raises'' Accessory [''Shoulders''] 3 ''12-15'',
         exerciseLit (uid 4) ''Triceps Rope Pushdown'' Accessory [''Triceps''] 3 ''10-15'']
      else if dt = Pull then
        [exerciseLit (uid 0) ''Barbell Row'' (Lift Row) [''Back'', ''Biceps''] 4 ''6-10'',
         exerciseLit (uid 1) ''Pull-Ups / Lat Pulldown'' Accessory [''Back''] 3 ''6-12'',
         exerciseLit (uid 2) ''Seated Cable Row'' Accessory [''Back''] 3 ''8-12'',
         exerciseLit (uid 3) ''Face Pulls'' Accessory [''Rear Delts''] 3 ''12-15'',
         exerciseLit (uid 4) ''Dumbbell Curls'' Accessory [''Biceps''] 3 ''10-15'']
      else if dt = Legs then
        [exerciseLit (uid 0) ''Back Squat'' (Lift Squat) [''Quads'', ''Glutes''] 4 ''5-8'',
         exerciseLit (uid 1) ''Romanian Deadlift'' Accessory [''Hamstrings'', ''Glutes''] 3 ''6-10'',
         exerciseLit (uid 2) ''Leg Press'' Accessory [''Quads''] 3 ''10-15'',
         exerciseLit (uid 3) ''Hamstring Curl'' Accessory [''Hamstrings''] 3 ''10-15'',
         exerciseLit (uid 4) ''Calf Raises'' Accessory [''Calves''] 3 ''12-20'']
      else
        [exerciseLit (uid 0) ''Deadlift (Technique / Moderate)'' (Lift Deadlift) [''Posterior Chain''] 3 ''3-5'',
         exerciseLit (uid 1) ''Bench Press (Moderate)'' (Lift Bench) [''Chest'', ''Triceps''] 3 ''6-10'',
         exerciseLit (uid 2) ''Barbell Row (Moderate)'' (Lift Row) [''Back''] 3 ''6-10'',
         exerciseLit (uid 3) ''Goblet Squat / Front Squat'' Accessory [''Quads'', ''Core''] 3 ''8-12'',
         exerciseLit (uid 4) ''Plank / Hanging Knee Raises'' Accessory [''Core''] 3 ''30-60s''])"

text \<open>The constants \<open>demoSetup\<close> and \<open>demoHistory\<close> of \<open>applyDemoData\<close>.\<close>

definition demoFiveRM :: "LiftKey \<Rightarrow> rat" where
  "demoFiveRM k =
     (case k of Bench \<Rightarrow> 225 | Squat \<Rightarrow> 275 | Deadlift \<Rightarrow> 315 | Ohp \<Rightarrow> 135 | Row \<Rightarrow> 185)"

definition demoSetup :: Setup where
  "demoSetup =
     \<lparr>setup_name = Some ''Demo Athlete'', gender = ''Male'', heightIn = 70, weightLb = 180,
      goal = Hypertrophy, fiveRM = demoFiveRM\<rparr>"

definition demoHistory :: "(nat \<Rightarrow> string) \<Rightarrow> string \<Rightarrow> string \<Rightarrow> Session list" where
  "demoHistory uid twoDaysAgo oneDayAgo =
     [\<lparr>sess_id = uid 0, dateISO = twoDaysAgo, dayType = Push,
       sess_muscleGroups = [''Chest'', ''Shoulders'', ''Triceps''],
       energy = 4, difficulty = 3, sleepHours = Some 7,
       workout =
         [(exerciseLit (uid 1) ''Barbell Bench Press'' (Lift Bench) [''Chest'', ''Triceps''] 4 ''6-10'')
            \<lparr>targetWeightLb := Some 175\<rparr>,
          (exerciseLit (uid 2) ''Overhead Press'' (Lift Ohp) [''Shoulders''] 3 ''6-10'')
            \<lparr>targetWeightLb := Some 105\<rparr>,
          exerciseLit (uid 3) ''Incline Dumbbell Press'' Accessory [''Chest''] 3 ''8-12'',
          exerciseLit (uid 4) ''Lateral Raises'' Accessory [''Shoulders''] 3 ''12-15'',
          exerciseLit (uid 5) ''Triceps Rope Pushdown'' Accessory [''Triceps''] 3 ''10-15''],
       logs = []\<rparr>,
      \<lparr>sess_id = uid 6, dateISO = oneDayAgo, dayType = Pull,
       sess_muscleGroups = [''Back'', ''Biceps''],
       energy = 3, difficulty = 4, sleepHours = Some 6,
       workout =
         [(exerciseLit (uid 7) ''Barbell Row'' (Lift Row) [''Back''] 4 ''6-10'')
            \<lparr>targetWeightLb := Some 145\<rparr>,
          exerciseLit (uid 8) ''Pull-Ups / Lat Pulldown'' Accessory [''Back''] 3 ''6-12'',
          exerciseLit (uid 9) ''Seated Cable Row'' Accessory [''Back''] 3 ''8-12'',
          exerciseLit (uid 10) ''Face Pulls'' Accessory [''Rear Delts''] 3 ''12-15'',
          exerciseLit (uid 11) ''Dumbbell Curls'' Accessory [''Biceps''] 3 ''10-15''],
       logs = []\<rparr>]"

section \<open>The store and its operations\<close>

text \<open>
  The React state \<open>{ setup, history }\<close> of the page. Every handler ends in one \<open>setStore\<close>
  call; it is modelled as a function from the store the handler was rendered with to the
  store it sets. The flag \<open>demoMode\<close> is read by no computation and is left out.
\<close>

record Store =
  st_setup :: "Setup option"
  st_history :: "Session list"

definition emptyStore :: Store where
  "emptyStore = \<lparr>st_setup = None, st_history = []\<rparr>"

text \<open>
  \<open>isSameDay\<close> compares the local year, month and day of two \<open>Date\<close> objects. The
  reading of a date string is the platform's and is taken as the parameter \<open>cal\<close>; an
  invalid date has no calendar day (its components are \<open>NaN\<close>, equal to nothing).
\<close>

definition isSameDay :: "(string \<Rightarrow> (int \<times> int \<times> int) option) \<Rightarrow> string \<Rightarrow> string \<Rightarrow> bool" where
  "isSameDay cal aISO bISO =
     (case (cal aISO, cal bISO) of
        (Some a, Some b) \<Rightarrow> a = b
      | _ \<Rightarrow> False)"

text \<open>The constant \<open>today\<close> of the page: the first session when it is of the current day.\<close>

definition today :: "(string \<Rightarrow> (int \<times> int \<times> int) option) \<Rightarrow> string \<Rightarrow> Session list \<Rightarrow> Session option" where
  "today cal now history =
     (case history of
        [] \<Rightarrow> None
      | s # _ \<Rightarrow> if isSameDay cal (dateISO s) now then Some s else None)"

text \<open>\<open>Array.from(new Set(xs))\<close>: the elements in the order of their first occurrence.\<close>

definition uniqueInOrder :: "'a list \<Rightarrow> 'a list" where
  "uniqueInOrder xs = foldl (\<lambda>acc x. if x \<in> set acc then acc else acc @ [x]) [] xs"

definition newLog :: "Exercise \<Rightarrow> ExerciseLog" where
  "newLog w =
     \<lparr>exerciseId = ex_id w, actualWeightLb = None, actualReps = None, rpe = None,
      log_notes = None\<rparr>"

text \<open>
  \<open>generateTodayWorkout\<close>: the five identifiers of the template are \<open>uid 0\<close> to \<open>uid 4\<close>,
  the session's is \<open>uid 5\<close>.
\<close>

definition generateTodayWorkout :: "(nat \<Rightarrow> string) \<Rightarrow> string \<Rightarrow> Store \<Rightarrow> Store" where
  "generateTodayWorkout uid now st =
     (case st_setup st of
        None \<Rightarrow> st
      | Some stp \<Rightarrow>
          (let dt = pickNextDayType (st_history st);
               template = baseWorkoutTemplate uid dt;
               wk = map (\<lambda>ex. case primary ex of
                                Lift l \<Rightarrow>
                                  ex\<lparr>targetWeightLb :=
                                       Some (computeTargetWeightLb stp (st_history st) l dt)\<rparr>
                              | Accessory \<Rightarrow> ex) template;
               session =
                 \<lparr>sess_id = uid 5, dateISO = now, dayType = dt,
                  sess_muscleGroups = uniqueInOrder (concat (map ex_muscleGroups wk)),
                  energy = 3, difficulty = 3, sleepHours = None,
                  workout = wk, logs = map newLog wk\<rparr>
           in \<lparr>st_setup = Some stp, st_history = session # st_history st\<rparr>))"

text \<open>
  \<open>Partial<Session>\<close> and \<open>Partial<ExerciseLog>\<close>: every field may be absent (\<open>None\<close>). An
  optional field that is present may hold \<open>undefined\<close> (\<open>Some None\<close>), which the object
  spread copies like any other value.
\<close>

record SessionPatch =
  p_id :: "string option"
  p_dateISO :: "string option"
  p_dayType :: "DayType option"
  p_muscleGroups :: "string list option"
  p_energy :: "rat option"
  p_difficulty :: "rat option"
  p_sleepHours :: "rat option option"
  p_workout :: "Exercise list option"
  p_logs :: "ExerciseLog list option"

record ExerciseLogPatch =
  lp_exerciseId :: "string option"
  lp_actualWeightLb :: "rat option option"
  lp_actualReps :: "string option option"
  lp_rpe :: "rat option option"
  lp_notes :: "string option option"

definition noSessionPatch :: SessionPatch where
  "noSessionPatch =
     \<lparr>p_id = None, p_dateISO = None, p_dayType = None, p_muscleGroups = None,
      p_energy = None, p_difficulty = None, p_sleepHours = None, p_workout = None,
      p_logs = None\<rparr>"

definition noLogPatch :: ExerciseLogPatch where
  "noLogPatch =
     \<lparr>lp_exerciseId = None, lp_actualWeightLb = None, lp_actualReps = None, lp_rpe = None,
      lp_notes = None\<rparr>"

text \<open>The spread \<open>{ ...x, ...patch }\<close>: a field of the patch, when present, replaces that of \<open>x\<close>.\<close>

definition spreadField :: "'a \<Rightarrow> 'a option \<Rightarrow> 'a" where
  "spreadField old new = (case new of None \<Rightarrow> old | Some v \<Rightarrow> v)"

definition spreadSession :: "Session \<Rightarrow> SessionPatch \<Rightarrow> Session" where
  "spreadSession t p =
     \<lparr>sess_id = spreadField (sess_id t) (p_id p),
      dateISO = spreadField (dateISO t) (p_dateISO p),
      dayType = spreadField (dayType t) (p_dayType p),
      sess_muscleGroups = spreadField (sess_muscleGroups t) (p_muscleGroups p),
      energy = spreadField (energy t) (p_energy p),
      difficulty = spreadField (difficulty t) (p_difficulty p),
      sleepHours = spreadField (sleepHours t) (p_sleepHours p),
      workout = spreadField (workout t) (p_workout p),
      logs = spreadField (logs t) (p_logs p)\<rparr>"

definition spreadLog :: "ExerciseLog \<Rightarrow> ExerciseLogPatch \<Rightarrow> ExerciseLog" where
  "spreadLog l p =
     \<lparr>exerciseId = spreadField (exerciseId l) (lp_exerciseId p),
      actualWeightLb = spreadField (actualWeightLb l) (lp_actualWeightLb p),
      actualReps = spreadField (actualReps l) (lp_actualReps p),
      rpe = spreadField (rpe l) (lp_rpe p),
      log_notes = spreadField (log_notes l) (lp_notes p)\<rparr>"

definition updateToday ::
  "(string \<Rightarrow> (int \<times> int \<times> int) option) \<Rightarrow> string \<Rightarrow> SessionPatch \<Rightarrow> Store \<Rightarrow> Store" where
  "updateToday cal now patch st =
     (case today cal now (st_history st) of
        None \<Rightarrow> st
      | Some t \<Rightarrow>
          \<lparr>st_setup = st_setup st,
           st_history = spreadSession t patch # drop 1 (st_history st)\<rparr>)"

definition updateExerciseLog ::
  "(string \<Rightarrow> (int \<times> int \<times> int) option) \<Rightarrow> string \<Rightarrow> string \<Rightarrow> ExerciseLogPatch \<Rightarrow> Store \<Rightarrow> Store" where
  "updateExerciseLog cal now exId patch st =
     (case today cal now (st_history st) of
        None \<Rightarrow> st
      | Some t \<Rightarrow>
          updateToday cal now
            (noSessionPatch
               \<lparr>p_logs := Some (map (\<lambda>l. if exerciseId l = exId then spreadLog l patch else l)
                                     (logs t))\<rparr>)
            st)"

definition applyDemoData :: "(nat \<Rightarrow> string) \<Rightarrow> string \<Rightarrow> string \<Rightarrow> Store \<Rightarrow> Store" where
  "applyDemoData uid twoDaysAgo oneDayAgo st =
     \<lparr>st_setup = Some demoSetup, st_history = demoHistory uid twoDaysAgo oneDayAgo\<rparr>"

definition resetAll :: "Store \<Rightarrow> Store" where
  "resetAll st = \<lparr>st_setup = None, st_history = []\<rparr>"

text \<open>The \<open>Save setup\<close> button: \<open>setStore({ setup: draftSetup, history })\<close>.\<close>

definition saveSetup :: "Setup \<Rightarrow> Store \<Rightarrow> Store" where
  "saveSetup draftSetup st = \<lparr>st_setup = Some draftSetup, st_history = st_history st\<rparr>"

section \<open>The handlers of the page\<close>

text \<open>
  What the user can do, with the values the handler reads: the clock at the render
  (\<open>now\<close>, which decides \<open>today\<close>), the identifiers \<open>uid\<close> will return, and the number
  that \<open>Number(e.target.value)\<close> yields (\<open>None\<close> where the handler maps the empty field to
  \<open>undefined\<close>). Rating fields are clamped as the \<open>onChange\<close> handlers do.
\<close>

datatype Event =
    SaveSetupClicked Setup
  | GenerateClicked "nat \<Rightarrow> string" string
  | EnergyChanged string rat
  | DifficultyChanged string rat
  | SleepChanged string "rat option"
  | ActualWeightChanged string string "rat option"
  | ActualRepsChanged string string string
  | RpeChanged string string "rat option"
  | LoadDemoClicked "nat \<Rightarrow> string" string string
  | ResetClicked

fun step :: "(string \<Rightarrow> (int \<times> int \<times> int) option) \<Rightarrow> Event \<Rightarrow> Store \<Rightarrow> Store" where
  "step cal (SaveSetupClicked draftSetup) st = saveSetup draftSetup st"
| "step cal (GenerateClicked uid now) st = generateTodayWorkout uid now st"
| "step cal (EnergyChanged now v) st =
     updateToday cal now (noSessionPatch\<lparr>p_energy := Some (clamp v 1 5)\<rparr>) st"
| "step cal (DifficultyChanged now v) st =
     updateToday cal now (noSessionPatch\<lparr>p_difficulty := Some (clamp v 1 5)\<rparr>) st"
| "step cal (SleepChanged now v) st =
     updateToday cal now (noSessionPatch\<lparr>p_sleepHours := Some v\<rparr>) st"
| "step cal (ActualWeightChanged now exId v) st =
     updateExerciseLog cal now exId (noLogPatch\<lparr>lp_actualWeightLb := Some v\<rparr>) st"
| "step cal (ActualRepsChanged now exId v) st =
     updateExerciseLog cal now exId (noLogPatch\<lparr>lp_actualReps := Some (Some v)\<rparr>) st"
| "step cal (RpeChanged now exId v) st =
     updateExerciseLog cal now exId
       (noLogPatch\<lparr>lp_rpe := Some (map_option (\<lambda>x. clamp x 1 10) v)\<rparr>) st"
| "step cal (LoadDemoClicked uid twoDaysAgo oneDayAgo) st =
     applyDemoData uid twoDaysAgo oneDayAgo st"
| "step cal ResetClicked st = resetAll st"

text \<open>A run of the page: the handlers of a list of events, applied in order.\<close>

definition run :: "(string \<Rightarrow> (int \<times> int \<times> int) option) \<Rightarrow> Event list \<Rightarrow> Store \<Rightarrow> Store" where
  "run cal evs st = foldl (\<lambda>s e. step cal e s) st evs"

fun isLoadDemo :: "Event \<Rightarrow> bool" where
  "isLoadDemo (LoadDemoClicked uid twoDaysAgo oneDayAgo) = True"
| "isLoadDemo _ = False"

text \<open>
  The invariant of the data model: the log list of a session runs parallel to its workout
  list, the \<open>k\<close>-th log carrying the identifier of the \<open>k\<close>-th exercise.
\<close>

definition logsMatchWorkout :: "Session \<Rightarrow> bool" where
  "logsMatchWorkout s \<longleftrightarrow> map exerciseId (logs s) = map ex_id (workout s)"

definition storeInvariant :: "Store \<Rightarrow> bool" where
  "storeInvariant st \<longleftrightarrow> list_all logsMatchWorkout (st_history st)"

section \<open>Persistence\<close>

text \<open>
  \<open>saveState\<close> writes \<open>JSON.stringify({ setup, history })\<close> to \<open>localStorage\<close> and
  \<open>loadState\<close> reads it back with \<open>JSON.parse\<close>. JSON values are a datatype; the two
  functions of the platform that go between values and text are parameters
  (\<open>JSON_stringify\<close>, and \<open>JSON_parse\<close>, which returns \<open>None\<close> where \<open>JSON.parse\<close> throws a
  \<open>SyntaxError\<close>). \<open>window\<close> is \<open>None\<close> where \<open>typeof window === 'undefined'\<close>, otherwise
  the content of \<open>localStorage\<close>, a map from keys to strings.
\<close>

datatype json =
    JNull
  | JBool bool
  | JNumber rat
  | JString string
  | JArray "json list"
  | JObject "(string \<times> json) list"

definition LS_KEY :: string where
  "LS_KEY = ''workout_mvp_v1''"

text \<open>
  The JSON value of each object of the data model, as \<open>JSON.stringify\<close> reads it: one
  member for every property that is defined, none for a property that is \<open>undefined\<close>.
  The members are listed in the order of the type declarations.
\<close>

definition optField :: "string \<Rightarrow> ('a \<Rightarrow> json) \<Rightarrow> 'a option \<Rightarrow> (string \<times> json) list" where
  "optField k enc v = (case v of None \<Rightarrow> [] | Some x \<Rightarrow> [(k, enc x)])"

fun liftKeyName :: "LiftKey \<Rightarrow> string" where
  "liftKeyName Bench = ''bench''"
| "liftKeyName Squat = ''squat''"
| "liftKeyName Deadlift = ''deadlift''"
| "liftKeyName Ohp = ''ohp''"
| "liftKeyName Row = ''row''"

fun dayTypeName :: "DayType \<Rightarrow> string" where
  "dayTypeName Push = ''Push''"
| "dayTypeName Pull = ''Pull''"
| "dayTypeName Legs = ''Legs''"
| "dayTypeName Full = ''Full''"

fun goalName :: "Goal \<Rightarrow> string" where
  "goalName Hypertrophy = ''Hypertrophy''"
| "goalName Strength = ''Strength''"
| "goalName Health = ''Health''"

fun primaryName :: "Primary \<Rightarrow> string" where
  "primaryName (Lift k) = liftKeyName k"
| "primaryName Accessory = ''accessory''"

definition setupToJson :: "Setup \<Rightarrow> json" where
  "setupToJson stp =
     JObject
       (optField ''name'' JString (setup_name stp) @
        [(''gender'', JString (gender stp)),
         (''heightIn'', JNumber (heightIn stp)),
         (''weightLb'', JNumber (weightLb stp)),
         (''goal'', JString (goalName (goal stp))),
         (''fiveRM'',
            JObject (map (\<lambda>k. (liftKeyName k, JNumber (fiveRM stp k)))
                       [Bench, Squat, Deadlift, Ohp, Row]))])"

definition exerciseToJson :: "Exercise \<Rightarrow> json" where
  "exerciseToJson ex =
     JObject
       ([(''id'', JString (ex_id ex)),
         (''name'', JString (ex_name ex)),
         (''primary'', JString (primaryName (primary ex))),
         (''muscleGroups'', JArray (map JString (ex_muscleGroups ex))),
         (''sets'', JNumber (sets ex)),
         (''reps'', JString (reps ex))] @
        optField ''targetWeightLb'' JNumber (targetWeightLb ex) @
        optField ''notes'' JString (ex_notes ex))"

definition logToJson :: "ExerciseLog \<Rightarrow> json" where
  "logToJson l =
     JObject
       ([(''exerciseId'', JString (exerciseId l))] @
        optField ''actualWeightLb'' JNumber (actualWeightLb l) @
        optField ''actualReps'' JString (actualReps l) @
        optField ''rpe'' JNumber (rpe l) @
        optField ''notes'' JString (log_notes l))"

definition sessionToJson :: "Session \<Rightarrow> json" where
  "sessionToJson s =
     JObject
       ([(''id'', JString (sess_id s)),
         (''dateISO'', JString (dateISO s)),
         (''dayType'', JString (dayTypeName (dayType s))),
         (''muscleGroups'', JArray (map JString (sess_muscleGroups s))),
         (''energy'', JNumber (energy s)),
         (''difficulty'', JNumber (difficulty s))] @
        optField ''sleepHours'' JNumber (sleepHours s) @
        [(''workout'', JArray (map exerciseToJson (workout s))),
         (''logs'', JArray (map logToJson (logs s)))])"

text \<open>The object \<open>{ setup, history }\<close> that \<open>saveState\<close> serialises; \<open>null\<close> is written.\<close>

definition storeToJson :: "Setup option \<Rightarrow> Session list \<Rightarrow> json" where
  "storeToJson stp history =
     JObject
       [(''setup'', (case stp of None \<Rightarrow> JNull | Some s \<Rightarrow> setupToJson s)),
        (''history'', JArray (map sessionToJson history))]"

definition saveState ::
  "(json \<Rightarrow> string) \<Rightarrow> (string \<rightharpoonup> string) option \<Rightarrow> Setup option \<Rightarrow> Session list
     \<Rightarrow> (string \<rightharpoonup> string) option" where
  "saveState JSON_stringify window stp history =
     (case window of
        None \<Rightarrow> None
      | Some localStorage \<Rightarrow>
          Some (localStorage(LS_KEY \<mapsto> JSON_stringify (storeToJson stp history))))"

text \<open>
  Reading the property \<open>setup\<close> or \<open>history\<close> of the parsed value: \<open>None\<close> where the read
  throws a \<open>TypeError\<close> (the value is \<open>null\<close>), \<open>Some None\<close> where it yields \<open>undefined\<close>
  (the member is absent, or the value is a boolean, a number, a string or an array, none
  of which has such a property). The members of a parsed object have distinct names.
\<close>

fun getProp :: "json \<Rightarrow> string \<Rightarrow> json option option" where
  "getProp JNull k = None"
| "getProp (JObject fs) k = Some (map_of fs k)"
| "getProp v k = Some None"

text \<open>
  What \<open>loadState\<close> returns. Its declared type is that of the store, but nothing checks
  the parsed value against it: the two fields hold whatever JSON was stored.
\<close>

record LoadedState =
  loaded_setup :: "json option"
  loaded_history :: "json list"

definition emptyLoaded :: LoadedState where
  "emptyLoaded = \<lparr>loaded_setup = None, loaded_history = []\<rparr>"

text \<open>
  \<open>loadState\<close>: the early returns for a missing \<open>window\<close> and a falsy item (\<open>null\<close> or the
  empty string), then the \<open>try\<close> block, whose \<open>catch\<close> returns the empty state for the
  \<open>SyntaxError\<close> of \<open>JSON.parse\<close> and for the \<open>TypeError\<close> of a property read on \<open>null\<close>.
  \<open>parsed.setup ?? null\<close> maps \<open>undefined\<close> and \<open>null\<close> to \<open>null\<close>.
\<close>

definition loadState :: "(string \<Rightarrow> json option) \<Rightarrow> (string \<rightharpoonup> string) option \<Rightarrow> LoadedState" where
  "loadState JSON_parse window =
     (case window of
        None \<Rightarrow> emptyLoaded
      | Some localStorage \<Rightarrow>
          (case localStorage LS_KEY of
             None \<Rightarrow> emptyLoaded
           | Some raw \<Rightarrow>
               if raw = [] then emptyLoaded
               else
                 (case JSON_parse raw of
                    None \<Rightarrow> emptyLoaded
                  | Some parsed \<Rightarrow>
                      (case getProp parsed ''setup'' of
                         None \<Rightarrow> emptyLoaded
                       | Some su \<Rightarrow>
                           (case getProp parsed ''history'' of
                              None \<Rightarrow> emptyLoaded
                            | Some h \<Rightarrow>
                                \<lparr>loaded_setup =
                                   (case su of
                                      None \<Rightarrow> None
                                    | Some JNull \<Rightarrow> None
                                    | Some v \<Rightarrow> Some v),
                                 loaded_history =
                                   (case h of
                                      Some (JArray xs) \<Rightarrow> xs
                                    | _ \<Rightarrow> [])\<rparr>)))))"

section \<open>Properties of the day-type selector\<close>

text \<open>
  Claim C1, as the code has it. For the empty history the window of recent day types is
  empty, so the loop over the priority order returns at its first element: the selector
  returns \<open>Push\<close>. The \<open>Full\<close> of the guard after the loop is never reached.
\<close>

theorem pickNextDayType_empty_is_Push: "pickNextDayType [] = Push"
  by (simp add: pickNextDayType_def dayOrder_def)

text \<open>
  Claim C1, as stated (the selector returns \<open>Full\<close> for the empty history), is false.
\<close>

theorem pickNextDayType_empty_not_Full: "pickNextDayType [] \<noteq> Full"
  by (simp add: pickNextDayType_def dayOrder_def)

lemma next_in_dayOrder:
  "dayOrder ! nat ((indexOf dayOrder d + 1) mod int (length dayOrder)) =
     (case d of Push \<Rightarrow> Pull | Pull \<Rightarrow> Legs | Legs \<Rightarrow> Full | Full \<Rightarrow> Push)"
  by (cases d) (simp_all add: dayOrder_def)

text \<open>
  Claim C4. For a non-empty history the selector returns the first of \<open>Push\<close>, \<open>Pull\<close>,
  \<open>Legs\<close>, \<open>Full\<close> that is not the day type of one of the (at most) four most recent
  sessions; when all four occur there, it returns the successor of the most recent
  session's day type in the rotation, \<open>Full\<close> being followed by \<open>Push\<close>.
\<close>

theorem pickNextDayType_nonempty:
  assumes "history \<noteq> []"
  shows "pickNextDayType history =
     (let recent = set (map dayType (take 4 history)) in
      if Push \<notin> recent then Push
      else if Pull \<notin> recent then Pull
      else if Legs \<notin> recent then Legs
      else if Full \<notin> recent then Full
      else (case dayType (hd history) of
              Push \<Rightarrow> Pull | Pull \<Rightarrow> Legs | Legs \<Rightarrow> Full | Full \<Rightarrow> Push))"
proof -
  obtain s rest where h: "history = s # rest"
    using assms by (cases history) auto
  show ?thesis
    unfolding pickNextDayType_def Let_def
    by (cases "dayType s")
      (simp_all add: dayOrder_def h next_in_dayOrder [unfolded dayOrder_def] del: set_map)
qed

text \<open>
  The two histories of the specification: \<open>[Push, Pull, Legs]\<close> gives \<open>Full\<close>, and
  \<open>[Push, Pull, Legs, Full]\<close> gives \<open>Pull\<close>.
\<close>

theorem pickNextDayType_nonempty_witness:
  "map (\<lambda>d. \<lparr>sess_id = ''s'', dateISO = ''2024-01-01T10:00:00.000Z'', dayType = d,
              sess_muscleGroups = [], energy = 3, difficulty = 3, sleepHours = None,
              workout = [], logs = []\<rparr>) [Push, Pull, Legs] \<noteq> []
   \<and> pickNextDayType
       (map (\<lambda>d. \<lparr>sess_id = ''s'', dateISO = ''2024-01-01T10:00:00.000Z'', dayType = d,
                  sess_muscleGroups = [], energy = 3, difficulty = 3, sleepHours = None,
                  workout = [], logs = []\<rparr>) [Push, Pull, Legs]) = Full
   \<and> pickNextDayType
       (map (\<lambda>d. \<lparr>sess_id = ''s'', dateISO = ''2024-01-01T10:00:00.000Z'', dayType = d,
                  sess_muscleGroups = [], energy = 3, difficulty = 3, sleepHours = None,
                  workout = [], logs = []\<rparr>) [Push, Pull, Legs, Full]) = Pull"
  using
    pickNextDayType_nonempty
      [of "map (\<lambda>d. \<lparr>sess_id = ''s'', dateISO = ''2024-01-01T10:00:00.000Z'', dayType = d,
              sess_muscleGroups = [], energy = 3, difficulty = 3, sleepHours = None,
              workout = [], logs = []\<rparr>) [Push, Pull, Legs]"]
    pickNextDayType_nonempty
      [of "map (\<lambda>d. \<lparr>sess_id = ''s'', dateISO = ''2024-01-01T10:00:00.000Z'', dayType = d,
              sess_muscleGroups = [], energy = 3, difficulty = 3, sleepHours = None,
              workout = [], logs = []\<rparr>) [Push, Pull, Legs, Full]"]
  by simp

section \<open>Properties of the target-weight calculator\<close>

lemmas calc_defs = computeTargetWeightLb_def targetBeforeClamp_def liftTrainingMax_def
  trainingMax_def estimate1RMFrom5RM_def basePct_def dayAdjust_def clamp_def roundTo2_5_def
  Math_round_def progressionBump_def







text \<open>The training max of a lift is \<open>0.9 \<times> (7/6) \<times>\<close> the profile's 5RM.\<close>

lemma liftTrainingMax_eq: "liftTrainingMax stp lift = 0.9 * (7 / 6) * fiveRM stp lift"
  unfolding liftTrainingMax_def trainingMax_def estimate1RMFrom5RM_def by simp




text \<open>
  Claim C5. For a profile with bench 5RM 225 and goal Hypertrophy, day type Push and the
  empty history, the bench target is exactly \<open>165\<close>: the training max is \<open>236.25\<close>, the
  target before the clamp is \<open>165.375\<close>, inside the clamp interval
  \<open>[129.9375, 212.625]\<close>.
\<close>

theorem computeTargetWeightLb_bench_225:
  assumes "fiveRM stp Bench = 225" and "goal stp = Hypertrophy"
  shows "computeTargetWeightLb stp [] Bench Push = 165
       \<and> liftTrainingMax stp Bench = 236.25
       \<and> targetBeforeClamp stp [] Bench Push = 165.375
       \<and> liftTrainingMax stp Bench * 0.55 = 129.9375
       \<and> liftTrainingMax stp Bench * 0.9 = 212.625"
  using assms by (simp add: calc_defs Let_def floor_eq_iff)

theorem computeTargetWeightLb_bench_225_witness:
  "fiveRM demoSetup Bench = 225 \<and> goal demoSetup = Hypertrophy \<and>
   computeTargetWeightLb demoSetup [] Bench Push = 165"
  using computeTargetWeightLb_bench_225 [of demoSetup]
  by (simp add: demoSetup_def demoFiveRM_def)

lemma truthyNumber_iff: "truthyNumber t \<longleftrightarrow> (\<exists>w. t = Some w \<and> w \<noteq> 0)"
  by (cases t) auto

lemma findInWorkout_Some:
  "findInWorkout s exs lift = Some lp \<Longrightarrow>
     perf_session lp = s \<and> perf_exercise lp \<in> set exs \<and>
     primary (perf_exercise lp) = Lift lift \<and> truthyNumber (targetWeightLb (perf_exercise lp))"
  by (induction exs) (auto split: if_splits)

lemma findInWorkout_None:
  "findInWorkout s exs lift = None \<longleftrightarrow>
     (\<forall>ex\<in>set exs. \<not> (primary ex = Lift lift \<and> truthyNumber (targetWeightLb ex)))"
  by (induction exs) auto

lemma findLastLiftPerformance_Some:
  "findLastLiftPerformance history lift = Some lp \<Longrightarrow>
     perf_session lp \<in> set history \<and> perf_exercise lp \<in> set (workout (perf_session lp)) \<and>
     primary (perf_exercise lp) = Lift lift \<and> truthyNumber (targetWeightLb (perf_exercise lp))"
proof (induction history)
  case Nil
  then show ?case by simp
next
  case (Cons s rest)
  show ?case
  proof (cases "findInWorkout s (workout s) lift")
    case None
    with Cons show ?thesis by simp
  next
    case (Some r)
    with Cons.prems have "r = lp" by simp
    with Some findInWorkout_Some [of s "workout s" lift lp] show ?thesis by simp
  qed
qed

lemma findLastLiftPerformance_None:
  "findLastLiftPerformance history lift = None \<longleftrightarrow>
     (\<forall>s\<in>set history. \<forall>ex\<in>set (workout s).
        \<not> (primary ex = Lift lift \<and> truthyNumber (targetWeightLb ex)))"
proof (induction history)
  case Nil
  show ?case by simp
next
  case (Cons s rest)
  show ?case
  proof (cases "findInWorkout s (workout s) lift")
    case None
    then have "\<forall>ex\<in>set (workout s).
        \<not> (primary ex = Lift lift \<and> truthyNumber (targetWeightLb ex))"
      unfolding findInWorkout_None .
    with None Cons show ?thesis by auto
  next
    case (Some r)
    then have "findInWorkout s (workout s) lift \<noteq> None" by simp
    then have "\<not> (\<forall>ex\<in>set (workout s).
        \<not> (primary ex = Lift lift \<and> truthyNumber (targetWeightLb ex)))"
      unfolding findInWorkout_None .
    with Some show ?thesis by auto
  qed
qed

lemma falsy_target: "t = None \<or> t = Some 0 \<Longrightarrow> \<not> truthyNumber t"
  by auto

text \<open>
  Claim C3. When the search for the last performance of a lift succeeds, it returns a
  session of the history and an exercise of that session with the lift's tag and a
  non-zero target weight, and the target before the clamp is that weight plus the bump of
  the first matching rule: \<open>+5\<close> for difficulty \<open>\<le> 2\<close> and energy \<open>\<ge> 4\<close>, \<open>+2.5\<close> for
  difficulty \<open>3\<close>, \<open>-5\<close> for difficulty \<open>\<ge> 4\<close> or energy \<open>\<le> 2\<close>, \<open>0\<close> otherwise. A last
  weight of 175 at difficulty 2 and energy 4 gives 180 before the clamp, and 180 as the
  result when 180 is inside the clamp interval.
\<close>

theorem targetBeforeClamp_progression:
  assumes "findLastLiftPerformance history lift = Some lp"
  shows "perf_session lp \<in> set history \<and>
     perf_exercise lp \<in> set (workout (perf_session lp)) \<and>
     primary (perf_exercise lp) = Lift lift \<and>
     (\<exists>lastW. targetWeightLb (perf_exercise lp) = Some lastW \<and> lastW \<noteq> 0 \<and>
        targetBeforeClamp stp history lift dt =
          lastW + (if difficulty (perf_session lp) \<le> 2 \<and> energy (perf_session lp) \<ge> 4 then 5
                   else if difficulty (perf_session lp) = 3 then 2.5
                   else if difficulty (perf_session lp) \<ge> 4 \<or> energy (perf_session lp) \<le> 2 then - 5
                   else 0) \<and>
        (lastW = 175 \<and> difficulty (perf_session lp) = 2 \<and> energy (perf_session lp) = 4 \<longrightarrow>
           targetBeforeClamp stp history lift dt = 180 \<and>
           (liftTrainingMax stp lift * 0.55 \<le> 180 \<and> 180 \<le> liftTrainingMax stp lift * 0.9 \<longrightarrow>
              computeTargetWeightLb stp history lift dt = 180)))"
proof -
  from findLastLiftPerformance_Some [OF assms]
  have mem: "perf_session lp \<in> set history"
      "perf_exercise lp \<in> set (workout (perf_session lp))"
      "primary (perf_exercise lp) = Lift lift"
    and tr: "truthyNumber (targetWeightLb (perf_exercise lp))"
    by auto
  from tr obtain lastW where w: "targetWeightLb (perf_exercise lp) = Some lastW" "lastW \<noteq> 0"
    by (auto simp: truthyNumber_iff)
  have tb: "targetBeforeClamp stp history lift dt =
      lastW + progressionBump (difficulty (perf_session lp)) (energy (perf_session lp))"
    unfolding targetBeforeClamp_def Let_def using assms w by simp
  have r180: "roundTo2_5 180 = 180"
    unfolding roundTo2_5_def Math_round_def by (simp add: floor_eq_iff)
  have cl: "clamp 180 a b = 180" if "a \<le> 180" "180 \<le> b" for a b
    using that unfolding clamp_def by simp
  have "computeTargetWeightLb stp history lift dt = 180"
    if "targetBeforeClamp stp history lift dt = 180"
      "liftTrainingMax stp lift * 0.55 \<le> 180" "180 \<le> liftTrainingMax stp lift * 0.9"
    unfolding computeTargetWeightLb_def Let_def using that cl r180 by simp
  then show ?thesis
    using mem w tb unfolding progressionBump_def by auto
qed

theorem targetBeforeClamp_progression_witness:
  "findLastLiftPerformance [(hd (demoHistory (\<lambda>k. ''id'') ''d2'' ''d1''))\<lparr>difficulty := 2\<rparr>] Bench
     = Some \<lparr>perf_session = (hd (demoHistory (\<lambda>k. ''id'') ''d2'' ''d1''))\<lparr>difficulty := 2\<rparr>,
             perf_exercise =
               (exerciseLit ''id'' ''Barbell Bench Press'' (Lift Bench) [''Chest'', ''Triceps''] 4 ''6-10'')
                 \<lparr>targetWeightLb := Some 175\<rparr>,
             perf_log = None\<rparr>
   \<and> targetBeforeClamp demoSetup
        [(hd (demoHistory (\<lambda>k. ''id'') ''d2'' ''d1''))\<lparr>difficulty := 2\<rparr>] Bench Push = 180
   \<and> computeTargetWeightLb demoSetup
        [(hd (demoHistory (\<lambda>k. ''id'') ''d2'' ''d1''))\<lparr>difficulty := 2\<rparr>] Bench Push = 180"
proof -
  have f: "findLastLiftPerformance
      [(hd (demoHistory (\<lambda>k. ''id'') ''d2'' ''d1''))\<lparr>difficulty := 2\<rparr>] Bench
     = Some \<lparr>perf_session = (hd (demoHistory (\<lambda>k. ''id'') ''d2'' ''d1''))\<lparr>difficulty := 2\<rparr>,
             perf_exercise =
               (exerciseLit ''id'' ''Barbell Bench Press'' (Lift Bench) [''Chest'', ''Triceps''] 4 ''6-10'')
                 \<lparr>targetWeightLb := Some 175\<rparr>,
             perf_log = None\<rparr>"
    by (simp add: demoHistory_def exerciseLit_def)
  have tm: "liftTrainingMax demoSetup Bench = 236.25"
    by (simp add: liftTrainingMax_eq demoSetup_def demoFiveRM_def)
  show ?thesis
    using targetBeforeClamp_progression [OF f, of demoSetup Push] f
    by (simp add: tm exerciseLit_def demoHistory_def)
qed

text \<open>
  Claim C9. A target weight of \<open>0\<close> counts as no target, like an absent one: a session
  in which every exercise of the lift has target \<open>0\<close> or none is skipped by the search,
  so the result is that of the remaining history; and when the same holds of every
  remaining session, the target before the clamp is the baseline, the training max times
  the intensity fraction, with no bump.
\<close>

theorem zero_target_is_skipped:
  assumes "\<forall>ex\<in>set (workout s). primary ex = Lift lift \<longrightarrow>
             targetWeightLb ex = None \<or> targetWeightLb ex = Some 0"
  shows "findLastLiftPerformance (s # rest) lift = findLastLiftPerformance rest lift \<and>
     computeTargetWeightLb stp (s # rest) lift dt = computeTargetWeightLb stp rest lift dt \<and>
     ((\<forall>s'\<in>set rest. \<forall>ex\<in>set (workout s'). primary ex = Lift lift \<longrightarrow>
          targetWeightLb ex = None \<or> targetWeightLb ex = Some 0) \<longrightarrow>
        targetBeforeClamp stp (s # rest) lift dt =
          liftTrainingMax stp lift * (basePct (goal stp) + dayAdjust dt))"
proof -
  have "findInWorkout s (workout s) lift = None"
    unfolding findInWorkout_None using assms falsy_target by blast
  then have f: "findLastLiftPerformance (s # rest) lift = findLastLiftPerformance rest lift"
    by simp
  have "findLastLiftPerformance rest lift = None"
    if "\<forall>s'\<in>set rest. \<forall>ex\<in>set (workout s'). primary ex = Lift lift \<longrightarrow>
          targetWeightLb ex = None \<or> targetWeightLb ex = Some 0"
    unfolding findLastLiftPerformance_None using that falsy_target by blast
  then show ?thesis
    unfolding computeTargetWeightLb_def targetBeforeClamp_def f by (simp add: Let_def)
qed

theorem zero_target_is_skipped_witness:
  "findLastLiftPerformance
       [(hd (demoHistory (\<lambda>k. ''id'') ''d2'' ''d1''))
          \<lparr>difficulty := 2,
           workout := [(exerciseLit ''e1'' ''Barbell Bench Press'' (Lift Bench) [''Chest''] 4 ''6-10'')
                         \<lparr>targetWeightLb := Some 0\<rparr>]\<rparr>,
        hd (tl (demoHistory (\<lambda>k. ''id'') ''d2'' ''d1''))] Bench = None
   \<and> computeTargetWeightLb demoSetup
       [(hd (demoHistory (\<lambda>k. ''id'') ''d2'' ''d1''))
          \<lparr>difficulty := 2,
           workout := [(exerciseLit ''e1'' ''Barbell Bench Press'' (Lift Bench) [''Chest''] 4 ''6-10'')
                         \<lparr>targetWeightLb := Some 0\<rparr>]\<rparr>,
        hd (tl (demoHistory (\<lambda>k. ''id'') ''d2'' ''d1''))] Bench Push = 165"
  using
    zero_target_is_skipped
      [of "(hd (demoHistory (\<lambda>k. ''id'') ''d2'' ''d1''))
          \<lparr>difficulty := 2,
           workout := [(exerciseLit ''e1'' ''Barbell Bench Press'' (Lift Bench) [''Chest''] 4 ''6-10'')
                         \<lparr>targetWeightLb := Some 0\<rparr>]\<rparr>" Bench
          "[hd (tl (demoHistory (\<lambda>k. ''id'') ''d2'' ''d1''))]" demoSetup Push]
  by (simp add: exerciseLit_def demoHistory_def calc_defs demoSetup_def demoFiveRM_def
      floor_eq_iff)

section \<open>Properties of the store operations\<close>

lemma today_Some: "today cal now history = Some t \<Longrightarrow> \<exists>rest. history = t # rest"
  by (auto simp: today_def split: list.splits if_splits)

lemma updateToday_today:
  "today cal now (st_history st) = Some t \<Longrightarrow>
     updateToday cal now patch st =
       \<lparr>st_setup = st_setup st, st_history = spreadSession t patch # tl (st_history st)\<rparr>"
  by (auto simp: updateToday_def dest: today_Some)

lemma updateToday_no_today: "today cal now (st_history st) = None \<Longrightarrow> updateToday cal now patch st = st"
  by (simp add: updateToday_def)

lemma updateExerciseLog_today:
  "today cal now (st_history st) = Some t \<Longrightarrow>
     updateExerciseLog cal now exId patch st =
       \<lparr>st_setup = st_setup st,
        st_history =
          t\<lparr>logs := map (\<lambda>l. if exerciseId l = exId then spreadLog l patch else l) (logs t)\<rparr>
          # tl (st_history st)\<rparr>"
  by (simp add: updateExerciseLog_def updateToday_today spreadSession_def noSessionPatch_def
      spreadField_def)

text \<open>
  Claim C10. When the first session of the history is today's, \<open>updateToday\<close> and
  \<open>updateExerciseLog\<close> leave the profile, the length of the history and every session
  after the first unchanged; \<open>updateToday\<close> replaces the first session by its spread
  with the patch; \<open>updateExerciseLog\<close> changes of the first session only its logs, keeps
  their number, and leaves every log whose \<open>exerciseId\<close> differs from the given one as it
  was.
\<close>

theorem update_frame:
  assumes "today cal now (st_history st) = Some t"
  shows "st_setup (updateToday cal now patch st) = st_setup st \<and>
     length (st_history (updateToday cal now patch st)) = length (st_history st) \<and>
     tl (st_history (updateToday cal now patch st)) = tl (st_history st) \<and>
     hd (st_history (updateToday cal now patch st)) = spreadSession t patch \<and>
     st_setup (updateExerciseLog cal now exId lpatch st) = st_setup st \<and>
     length (st_history (updateExerciseLog cal now exId lpatch st)) = length (st_history st) \<and>
     tl (st_history (updateExerciseLog cal now exId lpatch st)) = tl (st_history st) \<and>
     workout (hd (st_history (updateExerciseLog cal now exId lpatch st))) = workout t \<and>
     length (logs (hd (st_history (updateExerciseLog cal now exId lpatch st)))) = length (logs t) \<and>
     (\<forall>i < length (logs t). exerciseId (logs t ! i) \<noteq> exId \<longrightarrow>
        logs (hd (st_history (updateExerciseLog cal now exId lpatch st))) ! i = logs t ! i) \<and>
     hd (st_history (updateExerciseLog cal now exId lpatch st)) =
       t\<lparr>logs := logs (hd (st_history (updateExerciseLog cal now exId lpatch st)))\<rparr>"
proof -
  from today_Some [OF assms] obtain rest where h: "st_history st = t # rest" ..
  show ?thesis
    unfolding updateToday_today [OF assms] updateExerciseLog_today [OF assms]
    by (simp add: h)
qed


theorem update_frame_witness:
  "today (\<lambda>d. Some (2024, 0, 3)) ''2024-01-03T18:00:00.000Z''
     (st_history (generateTodayWorkout (\<lambda>k. [''a'', ''b'', ''c'', ''d'', ''e'', ''f''] ! k)
        ''2024-01-03T09:00:00.000Z'' \<lparr>st_setup = Some demoSetup, st_history = []\<rparr>))
     = Some (hd (st_history (generateTodayWorkout (\<lambda>k. [''a'', ''b'', ''c'', ''d'', ''e'', ''f''] ! k)
        ''2024-01-03T09:00:00.000Z'' \<lparr>st_setup = Some demoSetup, st_history = []\<rparr>)))
   \<and> st_setup (updateExerciseLog (\<lambda>d. Some (2024, 0, 3)) ''2024-01-03T18:00:00.000Z'' ''a''
        (noLogPatch\<lparr>lp_actualWeightLb := Some (Some 165)\<rparr>)
        (generateTodayWorkout (\<lambda>k. [''a'', ''b'', ''c'', ''d'', ''e'', ''f''] ! k)
           ''2024-01-03T09:00:00.000Z'' \<lparr>st_setup = Some demoSetup, st_history = []\<rparr>))
     = Some demoSetup
   \<and> length (st_history (updateExerciseLog (\<lambda>d. Some (2024, 0, 3)) ''2024-01-03T18:00:00.000Z'' ''a''
        (noLogPatch\<lparr>lp_actualWeightLb := Some (Some 165)\<rparr>)
        (generateTodayWorkout (\<lambda>k. [''a'', ''b'', ''c'', ''d'', ''e'', ''f''] ! k)
           ''2024-01-03T09:00:00.000Z'' \<lparr>st_setup = Some demoSetup, st_history = []\<rparr>)))
     = 1
   \<and> map actualWeightLb (logs (hd (st_history (updateExerciseLog (\<lambda>d. Some (2024, 0, 3)) ''2024-01-03T18:00:00.000Z'' ''a''
        (noLogPatch\<lparr>lp_actualWeightLb := Some (Some 165)\<rparr>)
        (generateTodayWorkout (\<lambda>k. [''a'', ''b'', ''c'', ''d'', ''e'', ''f''] ! k)
           ''2024-01-03T09:00:00.000Z'' \<lparr>st_setup = Some demoSetup, st_history = []\<rparr>)))))
     = [Some 165, None, None, None, None]"
proof -
  let ?st = "generateTodayWorkout (\<lambda>k. [''a'', ''b'', ''c'', ''d'', ''e'', ''f''] ! k)
        ''2024-01-03T09:00:00.000Z'' \<lparr>st_setup = Some demoSetup, st_history = []\<rparr>"
  have t: "today (\<lambda>d. Some (2024, 0, 3)) ''2024-01-03T18:00:00.000Z'' (st_history ?st)
      = Some (hd (st_history ?st))"
    by (simp add: generateTodayWorkout_def today_def isSameDay_def Let_def)
  have l: "map actualWeightLb (logs (hd (st_history (updateExerciseLog (\<lambda>d. Some (2024, 0, 3)) ''2024-01-03T18:00:00.000Z'' ''a''
        (noLogPatch\<lparr>lp_actualWeightLb := Some (Some 165)\<rparr>) ?st))))
     = [Some 165, None, None, None, None]"
    unfolding updateExerciseLog_today [OF t]
    by (simp add: generateTodayWorkout_def Let_def pickNextDayType_def dayOrder_def
        baseWorkoutTemplate_def exerciseLit_def newLog_def spreadLog_def spreadField_def
        noLogPatch_def)
  have s: "st_setup ?st = Some demoSetup" "length (st_history ?st) = 1"
    by (simp_all add: generateTodayWorkout_def Let_def)
  show ?thesis
    using update_frame [OF t, of noSessionPatch "''a''" "noLogPatch\<lparr>lp_actualWeightLb := Some (Some 165)\<rparr>"]
      t l s
    by simp
qed

lemma inv_saveSetup: "storeInvariant st \<Longrightarrow> storeInvariant (saveSetup d st)"
  by (simp add: storeInvariant_def saveSetup_def)

lemma inv_resetAll: "storeInvariant (resetAll st)"
  by (simp add: storeInvariant_def resetAll_def)

lemma newLog_ids: "map exerciseId (map newLog wk) = map ex_id wk"
  by (induction wk) (simp_all add: newLog_def)

lemma inv_generateTodayWorkout:
  "storeInvariant st \<Longrightarrow> storeInvariant (generateTodayWorkout uid now st)"
  by (cases "st_setup st")
    (simp_all add: generateTodayWorkout_def storeInvariant_def Let_def logsMatchWorkout_def
      newLog_ids del: map_map)

lemma inv_updateToday:
  assumes "storeInvariant st" and "p_workout patch = None" and "p_logs patch = None"
  shows "storeInvariant (updateToday cal now patch st)"
proof (cases "today cal now (st_history st)")
  case None
  with assms show ?thesis by (simp add: updateToday_no_today)
next
  case (Some t)
  from today_Some [OF Some] obtain rest where h: "st_history st = t # rest" ..
  with assms show ?thesis
    unfolding updateToday_today [OF Some]
    by (simp add: storeInvariant_def logsMatchWorkout_def spreadSession_def spreadField_def)
qed

lemma inv_updateExerciseLog:
  assumes "storeInvariant st" and "lp_exerciseId lpatch = None"
  shows "storeInvariant (updateExerciseLog cal now exId lpatch st)"
proof (cases "today cal now (st_history st)")
  case None
  with assms show ?thesis by (simp add: updateExerciseLog_def)
next
  case (Some t)
  from today_Some [OF Some] obtain rest where h: "st_history st = t # rest" ..
  have ids: "map exerciseId (map (\<lambda>l. if exerciseId l = exId then spreadLog l lpatch else l) ls)
      = map exerciseId ls" for ls
    using assms(2) by (induction ls) (simp_all add: spreadLog_def spreadField_def)
  from assms h show ?thesis
    unfolding updateExerciseLog_today [OF Some]
    by (simp add: storeInvariant_def logsMatchWorkout_def ids del: map_map)
qed

lemma inv_step: "storeInvariant st \<Longrightarrow> \<not> isLoadDemo e \<Longrightarrow> storeInvariant (step cal e st)"
  by (cases e)
    (simp_all add: inv_saveSetup inv_resetAll inv_generateTodayWorkout inv_updateToday
      inv_updateExerciseLog noSessionPatch_def noLogPatch_def)

lemma inv_run:
  "storeInvariant st \<Longrightarrow> \<forall>e\<in>set evs. \<not> isLoadDemo e \<Longrightarrow> storeInvariant (run cal evs st)"
  unfolding run_def by (induction evs arbitrary: st) (simp_all add: inv_step)

lemma length_baseWorkoutTemplate: "length (baseWorkoutTemplate uid dt) = 5"
  by (simp add: baseWorkoutTemplate_def)

text \<open>
  Claim C6, as the code has it. Workout generation gives the new session one log per
  exercise, in the order of the workout and with the exercise's identifier, and keeps the
  other sessions; saving the profile, a session edit that sets neither \<open>workout\<close> nor
  \<open>logs\<close>, a log patch that does not set \<open>exerciseId\<close> (the handlers of the page set
  energy, difficulty, sleep hours, actual weight, actual reps and RPE only) and the reset
  preserve the invariant. So it holds after every run of handlers other than the
  demo-data loader, started in a store where it holds, such as the empty one.
\<close>

theorem storeInvariant_without_demo:
  assumes "storeInvariant st"
  shows "storeInvariant (generateTodayWorkout uid now st) \<and>
     (st_setup st \<noteq> None \<longrightarrow>
        st_history (generateTodayWorkout uid now st)
          = hd (st_history (generateTodayWorkout uid now st)) # st_history st \<and>
        length (workout (hd (st_history (generateTodayWorkout uid now st)))) = 5 \<and>
        map exerciseId (logs (hd (st_history (generateTodayWorkout uid now st))))
          = map ex_id (workout (hd (st_history (generateTodayWorkout uid now st))))) \<and>
     storeInvariant (saveSetup draftSetup st) \<and>
     (p_workout patch = None \<and> p_logs patch = None \<longrightarrow>
        storeInvariant (updateToday cal now patch st)) \<and>
     (lp_exerciseId lpatch = None \<longrightarrow>
        storeInvariant (updateExerciseLog cal now exId lpatch st)) \<and>
     storeInvariant (resetAll st) \<and>
     ((\<forall>e\<in>set evs. \<not> isLoadDemo e) \<longrightarrow> storeInvariant (run cal evs st))"
proof -
  have gen: "storeInvariant (generateTodayWorkout uid now st)"
    using assms by (rule inv_generateTodayWorkout)
  have new: "st_history (generateTodayWorkout uid now st)
          = hd (st_history (generateTodayWorkout uid now st)) # st_history st \<and>
        length (workout (hd (st_history (generateTodayWorkout uid now st)))) = 5 \<and>
        map exerciseId (logs (hd (st_history (generateTodayWorkout uid now st))))
          = map ex_id (workout (hd (st_history (generateTodayWorkout uid now st))))"
    if "st_setup st \<noteq> None"
  proof -
    from that obtain stp where s: "st_setup st = Some stp" by auto
    show ?thesis
      by (simp add: generateTodayWorkout_def s Let_def length_baseWorkoutTemplate newLog_ids
          del: map_map)
  qed
  show ?thesis
    using gen new assms inv_saveSetup [OF assms] inv_updateToday [OF assms]
      inv_updateExerciseLog [OF assms] inv_resetAll inv_run [OF assms]
    by blast
qed

theorem storeInvariant_without_demo_witness:
  "storeInvariant (saveSetup demoSetup emptyStore) \<and>
   storeInvariant
     (run (\<lambda>d. Some (2024, 0, 3))
        [SaveSetupClicked demoSetup,
         GenerateClicked (\<lambda>k. [''a'', ''b'', ''c'', ''d'', ''e'', ''f''] ! k) ''2024-01-03T09:00:00.000Z'',
         EnergyChanged ''2024-01-03T09:00:00.000Z'' 9,
         ActualWeightChanged ''2024-01-03T09:00:00.000Z'' ''a'' (Some 165)]
        (saveSetup demoSetup emptyStore)) \<and>
   storeInvariant (generateTodayWorkout (\<lambda>k. ''id'') ''2024-01-03T09:00:00.000Z'' (saveSetup demoSetup emptyStore)) \<and>
   length (workout (hd (st_history (generateTodayWorkout (\<lambda>k. ''id'') ''2024-01-03T09:00:00.000Z''
       (saveSetup demoSetup emptyStore))))) = 5 \<and>
   storeInvariant (updateToday (\<lambda>d. Some (2024, 0, 3)) ''2024-01-03T09:00:00.000Z'' noSessionPatch (saveSetup demoSetup emptyStore)) \<and>
   storeInvariant (updateExerciseLog (\<lambda>d. Some (2024, 0, 3)) ''2024-01-03T09:00:00.000Z'' ''a'' noLogPatch (saveSetup demoSetup emptyStore))"
proof -
  have e: "storeInvariant (saveSetup demoSetup emptyStore)"
    by (simp add: storeInvariant_def emptyStore_def saveSetup_def)
  show ?thesis
    using e
      storeInvariant_without_demo
        [OF e, of "\<lambda>k. ''id''" "''2024-01-03T09:00:00.000Z''" demoSetup noSessionPatch
          "\<lambda>d. Some (2024, 0, 3)" noLogPatch "''a''"
          "[SaveSetupClicked demoSetup,
            GenerateClicked (\<lambda>k. [''a'', ''b'', ''c'', ''d'', ''e'', ''f''] ! k) ''2024-01-03T09:00:00.000Z'',
            EnergyChanged ''2024-01-03T09:00:00.000Z'' 9,
            ActualWeightChanged ''2024-01-03T09:00:00.000Z'' ''a'' (Some 165)]"]
    by (simp add: noSessionPatch_def noLogPatch_def saveSetup_def)
qed

text \<open>
  Claim C6, as stated, is false: the demo-data loader installs two sessions of five
  exercises each with an empty log list.
\<close>

theorem storeInvariant_demo_counterexample:
  "\<not> storeInvariant
        (run (\<lambda>d. Some (2024, 0, 3))
           [LoadDemoClicked (\<lambda>k. ''id'') ''2024-01-01T10:00:00.000Z'' ''2024-01-02T10:00:00.000Z'']
           emptyStore)"
  by (simp add: run_def applyDemoData_def storeInvariant_def demoHistory_def
      logsMatchWorkout_def)

section \<open>Properties of persistence\<close>
















text \<open>
  Without a \<open>window\<close> (a render on the server, where the effects that call the two
  functions do not run) nothing is stored and nothing is loaded.
\<close>

lemma saveState_no_window: "saveState JSON_stringify None stp history = None"
  by (simp add: saveState_def)

lemma loadState_no_window: "loadState JSON_parse None = emptyLoaded"
  by (simp add: loadState_def)

text \<open>A missing item and the empty string are falsy: the empty state, without parsing.\<close>

lemma loadState_no_item:
  "localStorage LS_KEY = None \<or> localStorage LS_KEY = Some [] \<Longrightarrow>
     loadState JSON_parse (Some localStorage) = emptyLoaded"
  by (auto simp: loadState_def)



text \<open>
  Claim C8, as the code has it. For a stored string that \<open>JSON.parse\<close> rejects, and for
  one whose parsed value is not an object (\<open>null\<close>, a boolean, a number, a string, an
  array), \<open>loadState\<close> returns the empty state; the \<open>catch\<close> turns both exceptions of the
  \<open>try\<close> block into that result. For a parsed object whose \<open>history\<close> is not an array, the
  history returned is empty and the profile is the stored \<open>setup\<close> member (none when it is
  absent or \<open>null\<close>): the two fields are read independently.
\<close>

theorem loadState_malformed:
  assumes "localStorage LS_KEY = Some raw"
  shows "(JSON_parse raw = None \<longrightarrow> loadState JSON_parse (Some localStorage) = emptyLoaded) \<and>
     (\<forall>parsed. JSON_parse raw = Some parsed \<and> (\<forall>fs. parsed \<noteq> JObject fs) \<longrightarrow>
        loadState JSON_parse (Some localStorage) = emptyLoaded) \<and>
     (\<forall>fs. JSON_parse raw = Some (JObject fs) \<and> raw \<noteq> [] \<and>
           (\<forall>xs. map_of fs ''history'' \<noteq> Some (JArray xs)) \<longrightarrow>
        loaded_history (loadState JSON_parse (Some localStorage)) = [] \<and>
        loaded_setup (loadState JSON_parse (Some localStorage)) =
          (case map_of fs ''setup'' of None \<Rightarrow> None | Some JNull \<Rightarrow> None | Some v \<Rightarrow> Some v))"
proof -
  have a: "loadState JSON_parse (Some localStorage) = emptyLoaded" if "JSON_parse raw = None"
    using assms that by (simp add: loadState_def)
  have b: "loadState JSON_parse (Some localStorage) = emptyLoaded"
    if "JSON_parse raw = Some parsed" "\<forall>fs. parsed \<noteq> JObject fs" for parsed
    using assms that by (cases parsed) (simp_all add: loadState_def emptyLoaded_def)
  have c: "loaded_history (loadState JSON_parse (Some localStorage)) = [] \<and>
        loaded_setup (loadState JSON_parse (Some localStorage)) =
          (case map_of fs ''setup'' of None \<Rightarrow> None | Some JNull \<Rightarrow> None | Some v \<Rightarrow> Some v)"
    if "JSON_parse raw = Some (JObject fs)" "raw \<noteq> []"
      "\<forall>xs. map_of fs ''history'' \<noteq> Some (JArray xs)" for fs
    using assms that
    by (auto simp: loadState_def split: option.splits json.splits)
  from a b c show ?thesis by blast
qed

theorem loadState_malformed_witness:
  \<open>loadState (\<lambda>raw. None) (Some [LS_KEY \<mapsto> ''{"setup":''])  = emptyLoaded \<and>
   loadState (\<lambda>raw. Some JNull) (Some [LS_KEY \<mapsto> ''null'']) = emptyLoaded \<and>
   loadState (\<lambda>raw. Some (JObject [(''history'', JNumber 5)])) (Some [LS_KEY \<mapsto> ''{"history":5}''])
     = emptyLoaded\<close>
proof -
  have 1: \<open>loadState (\<lambda>raw. None) (Some [LS_KEY \<mapsto> ''{"setup":'']) = emptyLoaded\<close>
    using loadState_malformed [of \<open>[LS_KEY \<mapsto> ''{"setup":'']\<close> \<open>''{"setup":''\<close> \<open>\<lambda>raw. None\<close>]
    by simp
  have 2: \<open>loadState (\<lambda>raw. Some JNull) (Some [LS_KEY \<mapsto> ''null'']) = emptyLoaded\<close>
    using loadState_malformed [of \<open>[LS_KEY \<mapsto> ''null'']\<close> \<open>''null''\<close> \<open>\<lambda>raw. Some JNull\<close>]
    by simp
  have 3: \<open>loadState (\<lambda>raw. Some (JObject [(''history'', JNumber 5)]))
       (Some [LS_KEY \<mapsto> ''{"history":5}'']) = emptyLoaded\<close>
    using loadState_malformed [of \<open>[LS_KEY \<mapsto> ''{"history":5}'']\<close> \<open>''{"history":5}''\<close>
        \<open>\<lambda>raw. Some (JObject [(''history'', JNumber 5)])\<close>]
    by (simp add: emptyLoaded_def LoadedState.equality)
  from 1 2 3 show ?thesis by simp
qed

text \<open>
  Claim C8, as stated, is false: a stored object with a profile and a \<open>history\<close> that is
  not a list is loaded with that profile, not as the empty state.
\<close>

theorem loadState_malformed_counterexample:
  \<open>loadState
     (\<lambda>raw. if raw = ''{"setup":{"gender":"Male"},"history":"none"}''
            then Some (JObject [(''setup'', JObject [(''gender'', JString ''Male'')]),
                                (''history'', JString ''none'')])
            else None)
     (Some [LS_KEY \<mapsto> ''{"setup":{"gender":"Male"},"history":"none"}''])
   \<noteq> emptyLoaded\<close>
  by (simp add: loadState_def emptyLoaded_def)

end
